theory Spec2Isabelle
  imports Main
begin

section \<open>Values exchanged over HTTP\<close>

text \<open>
  A session claim as \<^verbatim>\<open>jsonwebtoken\<close> issues it: the payload \<^verbatim>\<open>{ id, iat, exp }\<close>
  together with the key it was signed with. The library is an external collaborator; the
  signature is kept symbolic (the key itself), times are seconds.
\<close>

record token =
  payload_id :: nat
  iat :: nat
  expiry :: nat
  signed_with :: string

text \<open>\<^verbatim>\<open>expiresIn: '30d'\<close>: thirty days, in seconds.\<close>

definition expiresIn_30d :: nat where
  "expiresIn_30d = 30 * 24 * 60 * 60"

text \<open>
  A value read from a request body or from the process environment is absent
  (\<open>None\<close>) or a string. JavaScript's \<^verbatim>\<open>if (value)\<close> and \<^verbatim>\<open>!value\<close> take an absent
  value and the empty string as false.
\<close>

definition truthy :: "string option \<Rightarrow> bool" where
  "truthy v = (case v of None \<Rightarrow> False | Some x \<Rightarrow> x \<noteq> [])"

text \<open>
  \<^verbatim>\<open>jwt.sign({ id }, secret, { expiresIn })\<close>. The library throws
  \<^verbatim>\<open>secretOrPrivateKey must have a value\<close> when the key is unset or empty: \<open>None\<close>.
\<close>

definition jwt_sign :: "nat \<Rightarrow> string option \<Rightarrow> nat \<Rightarrow> nat \<Rightarrow> token option" where
  "jwt_sign ident secret expiresIn now =
     (case secret of
        None \<Rightarrow> None
      | Some k \<Rightarrow>
          if k \<noteq> []
          then Some \<lparr>payload_id = ident, iat = now, expiry = now + expiresIn, signed_with = k\<rparr>
          else None)"


text \<open>The JSON bodies the handlers send.\<close>

datatype json =
    JNull
  | JStr string
  | JId nat
  | JTok token
  | JObj "(string \<times> json) list"

record response =
  status :: nat
  body :: json

text \<open>\<^verbatim>\<open>res.status(code).json(value)\<close>; \<^verbatim>\<open>res.json(value)\<close> is the same at 200.\<close>

definition res_json :: "nat \<Rightarrow> json \<Rightarrow> response" where
  "res_json code v = \<lparr>status = code, body = v\<rparr>"

section \<open>The User model and the credential store\<close>

text \<open>
  Modelled from the spec: the User schema (\<^verbatim>\<open>models/User.js\<close> is not among the
  sources). Section 3 of the specification gives the entity: a unique identifier, a
  display name, an email, the hashed secret, an optional phone and an optional
  profile-picture reference.
\<close>

record user =
  user_id :: nat
  name :: string
  email :: string
  password :: string
  phone :: "string option"
  profilePicture :: "string option"

text \<open>
  The process configuration and the Secret Hasher (\<^verbatim>\<open>bcryptjs\<close>), both external:
  the signing key \<^verbatim>\<open>process.env.JWT_SECRET\<close> (\<open>None\<close> when it is not set), the
  one-way hash and its verification.
\<close>

record env =
  JWT_SECRET :: "string option"
  bcrypt_hash :: "string \<Rightarrow> string"
  bcrypt_compare :: "string \<Rightarrow> string \<Rightarrow> bool"

text \<open>
  The store behind the Mongoose model: the collection's documents in insertion order,
  the identifier the next \<^verbatim>\<open>new User(...)\<close> receives, and the outcomes of the
  store calls still to come (\<open>True\<close>: the awaited promise rejects). A store call
  consumes one outcome; with none left it succeeds.
\<close>

record store =
  users :: "user list"
  nextId :: nat
  faults :: "bool list"

datatype dberror = DbError

definition rejects :: "store \<Rightarrow> bool" where
  "rejects s = (case faults s of [] \<Rightarrow> False | f # fs \<Rightarrow> f)"

definition settled :: "store \<Rightarrow> store" where
  "settled s = s\<lparr>faults := drop 1 (faults s)\<rparr>"

text \<open>\<^verbatim>\<open>await User.findOne({ email })\<close>: the first document with that email, or null.\<close>

definition findOne :: "string \<Rightarrow> store \<Rightarrow> (dberror + user option) \<times> store" where
  "findOne e s =
     (if rejects s then (Inl DbError, settled s)
      else (Inr (find (\<lambda>u. email u = e) (users s)), settled s))"

text \<open>\<^verbatim>\<open>await User.findById(id)\<close>.\<close>

definition findById :: "nat \<Rightarrow> store \<Rightarrow> (dberror + user option) \<times> store" where
  "findById i s =
     (if rejects s then (Inl DbError, settled s)
      else (Inr (find (\<lambda>u. user_id u = i) (users s)), settled s))"

text \<open>
  \<^verbatim>\<open>new User({ name, email, password, phone, profilePicture })\<close>: a document in memory
  with a fresh identifier; nothing is stored yet. The password field holds what the
  caller passed.
\<close>

definition newUser ::
  "string \<Rightarrow> string \<Rightarrow> string \<Rightarrow> string option \<Rightarrow> string option \<Rightarrow> store \<Rightarrow> user \<times> store" where
  "newUser n e p ph pic s =
     (\<lparr>user_id = nextId s, name = n, email = e, password = p, phone = ph,
       profilePicture = pic\<rparr>,
      s\<lparr>nextId := Suc (nextId s)\<rparr>)"

text \<open>
  Modelled from the spec: the User model's save hook (\<^verbatim>\<open>models/User.js\<close> is not among
  the sources). The specification has the secret hashed by the Secret Hasher before it
  is persisted, and on an update stored "as a new hash (re-hash, not hash-of-hash)": the
  hook hashes the password field exactly when the document's password was assigned.
\<close>

definition preSave :: "env \<Rightarrow> bool \<Rightarrow> user \<Rightarrow> user" where
  "preSave env passwordModified u =
     (if passwordModified then u\<lparr>password := bcrypt_hash env (password u)\<rparr> else u)"

text \<open>
  \<^verbatim>\<open>await user.save()\<close> on a new document: the hook runs and the document is inserted.
\<close>

definition save_new :: "env \<Rightarrow> user \<Rightarrow> store \<Rightarrow> (dberror + user) \<times> store" where
  "save_new env u s =
     (if rejects s then (Inl DbError, settled s)
      else (Inr (preSave env True u),
            (settled s)\<lparr>users := users s @ [preSave env True u]\<rparr>))"

text \<open>
  \<^verbatim>\<open>await user.save()\<close> on a document that was fetched: the hook runs and the stored
  document with that identifier takes the document's fields.
\<close>

definition save_existing :: "env \<Rightarrow> bool \<Rightarrow> user \<Rightarrow> store \<Rightarrow> (dberror + user) \<times> store" where
  "save_existing env passwordModified u s =
     (if rejects s then (Inl DbError, settled s)
      else (Inr (preSave env passwordModified u),
            (settled s)\<lparr>users :=
               map (\<lambda>v. if user_id v = user_id u then preSave env passwordModified u else v)
                 (users s)\<rparr>))"

text \<open>
  Modelled from the spec: \<^verbatim>\<open>user.matchPassword\<close> (\<^verbatim>\<open>models/User.js\<close> is not among the
  sources) verifies the supplied secret against the stored hash.
\<close>

definition matchPassword :: "env \<Rightarrow> user \<Rightarrow> string \<Rightarrow> bool" where
  "matchPassword env u entered = bcrypt_compare env entered (password u)"

section \<open>controllers/authController.js\<close>

text \<open>
  Request bodies carry the fields of the specification's signatures: for signup a
  name, an email and a password, with an optional phone and profile picture; for login an
  email and a password. \<open>now\<close> is the clock when the token is signed. Every call
  inside a handler's \<^verbatim>\<open>try\<close> that can throw (the store calls, \<^verbatim>\<open>jwt.sign\<close>) leads to
  the handler's \<^verbatim>\<open>catch\<close> and its 500 answer. What \<^verbatim>\<open>console.error\<close> prints is not
  part of the response and is left out.
\<close>

definition signup ::
  "env \<Rightarrow> nat \<Rightarrow> string \<Rightarrow> string \<Rightarrow> string \<Rightarrow> string option \<Rightarrow> string option \<Rightarrow> store
     \<Rightarrow> response \<times> store" where
  "signup env now name' email' password' phone' profilePicture' s =
     (case findOne email' s of
        (Inl err, s1) \<Rightarrow> (res_json 500 (JObj [(''error'', JStr ''Server error'')]), s1)
      | (Inr (Some existing), s1) \<Rightarrow>
          (res_json 400 (JObj [(''error'', JStr ''Email already exists'')]), s1)
      | (Inr None, s1) \<Rightarrow>
          (case newUser name' email' password' phone' profilePicture' s1 of
             (user, s2) \<Rightarrow>
               (case save_new env user s2 of
                  (Inl err, s3) \<Rightarrow>
                    (res_json 500 (JObj [(''error'', JStr ''Server error'')]), s3)
                | (Inr saved, s3) \<Rightarrow>
                    (case jwt_sign (user_id user) (JWT_SECRET env) expiresIn_30d now of
                       None \<Rightarrow>
                         (res_json 500 (JObj [(''error'', JStr ''Server error'')]), s3)
                     | Some token \<Rightarrow>
                         (res_json 201
                            (JObj [(''message'', JStr ''User created successfully''),
                                   (''token'', JTok token)]),
                          s3)))))"

definition login :: "env \<Rightarrow> nat \<Rightarrow> string \<Rightarrow> string \<Rightarrow> store \<Rightarrow> response \<times> store" where
  "login env now email' password' s =
     (case findOne email' s of
        (Inl err, s1) \<Rightarrow> (res_json 500 (JObj [(''error'', JStr ''Server error'')]), s1)
      | (Inr None, s1) \<Rightarrow>
          (res_json 400 (JObj [(''error'', JStr ''Invalid credentials'')]), s1)
      | (Inr (Some user), s1) \<Rightarrow>
          (if \<not> matchPassword env user password'
           then (res_json 400 (JObj [(''error'', JStr ''Invalid credentials'')]), s1)
           else (case jwt_sign (user_id user) (JWT_SECRET env) expiresIn_30d now of
                   None \<Rightarrow> (res_json 500 (JObj [(''error'', JStr ''Server error'')]), s1)
                 | Some token \<Rightarrow> (res_json 200 (JObj [(''token'', JTok token)]), s1))))"

section \<open>controllers/profileController.js\<close>

text \<open>
  The document as \<^verbatim>\<open>res.json\<close> serialises it, and the projection
  \<^verbatim>\<open>.select('-password')\<close>, which drops one field. The fields are those of the
  User entity; an optional field that is not set is not serialised, and the bookkeeping
  fields Mongoose may add to a document are left out.
\<close>

definition toObject :: "user \<Rightarrow> (string \<times> json) list" where
  "toObject u =
     [(''_id'', JId (user_id u)), (''name'', JStr (name u)), (''email'', JStr (email u)),
      (''password'', JStr (password u))]
     @ (case phone u of None \<Rightarrow> [] | Some p \<Rightarrow> [(''phone'', JStr p)])
     @ (case profilePicture u of None \<Rightarrow> [] | Some p \<Rightarrow> [(''profilePicture'', JStr p)])"

definition select_without :: "string \<Rightarrow> (string \<times> json) list \<Rightarrow> (string \<times> json) list" where
  "select_without field doc = filter (\<lambda>kv. fst kv \<noteq> field) doc"

text \<open>\<open>rid\<close> is \<^verbatim>\<open>req.user.id\<close>, the identifier the request gate attached.\<close>

definition getProfile :: "nat \<Rightarrow> store \<Rightarrow> response \<times> store" where
  "getProfile rid s =
     (case findById rid s of
        (Inl err, s1) \<Rightarrow> (res_json 500 (JObj [(''error'', JStr ''Server error'')]), s1)
      | (Inr None, s1) \<Rightarrow> (res_json 200 JNull, s1)
      | (Inr (Some user), s1) \<Rightarrow>
          (res_json 200 (JObj (select_without ''password'' (toObject user))), s1))"

text \<open>A field of the update body is absent (\<open>None\<close>) or a string.\<close>

text \<open>\<^verbatim>\<open>if (value) user.field = value\<close>, for a field that holds a string.\<close>

definition assigned :: "string option \<Rightarrow> string \<Rightarrow> string" where
  "assigned v old = (case v of None \<Rightarrow> old | Some x \<Rightarrow> if x \<noteq> [] then x else old)"

text \<open>
  The tail of \<^verbatim>\<open>updateProfile\<close>, reached on both paths past the email check: the
  four conditional assignments, the save and the answer.
\<close>

definition assignAndSave ::
  "env \<Rightarrow> string option \<Rightarrow> string option \<Rightarrow> string option \<Rightarrow> string option \<Rightarrow> user \<Rightarrow> store
     \<Rightarrow> response \<times> store" where
  "assignAndSave env name' phone' profilePicture' password' user s =
     (case save_existing env (truthy password')
             (user\<lparr>name := assigned name' (name user),
                   phone := (if truthy phone' then phone' else phone user),
                   profilePicture :=
                     (if truthy profilePicture' then profilePicture' else profilePicture user),
                   password := assigned password' (password user)\<rparr>) s of
        (Inl err, s') \<Rightarrow>
          (res_json 500 (JObj [(''error'', JStr ''Unable to update profile'')]), s')
      | (Inr saved, s') \<Rightarrow>
          (res_json 200 (JObj [(''message'', JStr ''Profile updated successfully'')]), s'))"

definition updateProfile ::
  "env \<Rightarrow> nat \<Rightarrow> string option \<Rightarrow> string option \<Rightarrow> string option \<Rightarrow> string option
     \<Rightarrow> string option \<Rightarrow> store \<Rightarrow> response \<times> store" where
  "updateProfile env rid name' email' phone' profilePicture' password' s =
     (case findById rid s of
        (Inl err, s1) \<Rightarrow>
          (res_json 500 (JObj [(''error'', JStr ''Unable to update profile'')]), s1)
      | (Inr None, s1) \<Rightarrow> (res_json 404 (JObj [(''error'', JStr ''User not found'')]), s1)
      | (Inr (Some user), s1) \<Rightarrow>
          (case email' of
             None \<Rightarrow> assignAndSave env name' phone' profilePicture' password' user s1
           | Some e \<Rightarrow>
               if e \<noteq> [] \<and> e \<noteq> email user
               then (case findOne e s1 of
                       (Inl err, s2) \<Rightarrow>
                         (res_json 500 (JObj [(''error'', JStr ''Unable to update profile'')]),
                          s2)
                     | (Inr (Some existingUser), s2) \<Rightarrow>
                         (res_json 400 (JObj [(''error'', JStr ''Email already exists'')]), s2)
                     | (Inr None, s2) \<Rightarrow>
                         assignAndSave env name' phone' profilePicture' password'
                           (user\<lparr>email := e\<rparr>) s2)
               else assignAndSave env name' phone' profilePicture' password' user s1))"

section \<open>server.js and routes/authRoutes.js: preflight requests\<close>

datatype http_method = GET | HEAD | POST | PUT | PATCH | DELETE | OPTIONS

text \<open>\<open>origin\<close> is \<^verbatim>\<open>req.headers.origin\<close>, \<open>None\<close> when the header is not sent.\<close>

record request =
  req_method :: http_method
  path :: string
  origin :: "string option"

text \<open>What a middleware stack has written to the response so far.\<close>

record reply =
  headers :: "(string \<times> string) list"
  code :: nat

text \<open>\<^verbatim>\<open>res.header(field, value)\<close> sets the field, replacing an earlier value.\<close>

definition res_header :: "string \<Rightarrow> string \<Rightarrow> reply \<Rightarrow> reply" where
  "res_header field v r =
     r\<lparr>headers := filter (\<lambda>kv. fst kv \<noteq> field) (headers r) @ [(field, v)]\<rparr>"

definition allowedOrigins :: "string list" where
  "allowedOrigins = [''https://frontend-three-zeta-94.vercel.app'', ''http://localhost:3000'']"

text \<open>
  A handler either ends the response or calls \<^verbatim>\<open>next()\<close>; a layer of the stack is a
  handler with the requests it is registered for.
\<close>

datatype flow = Ended | Next

record layer =
  applies :: "request \<Rightarrow> bool"
  handler :: "request \<Rightarrow> reply \<Rightarrow> reply \<times> flow"

text \<open>\<^verbatim>\<open>app.options('*', ...)\<close> of server.js.\<close>

definition appOptions :: layer where
  "appOptions =
     \<lparr>applies = (\<lambda>req. req_method req = OPTIONS),
      handler = (\<lambda>req r.
        (case origin req of
           None \<Rightarrow> (r\<lparr>code := 204\<rparr>, Ended)
         | Some orig \<Rightarrow>
             if orig \<in> set allowedOrigins
             then ((res_header ''Vary'' ''Origin''
                     (res_header ''Access-Control-Allow-Credentials'' ''true''
                       (res_header ''Access-Control-Allow-Headers''
                          ''Content-Type, Authorization, x-auth-token''
                         (res_header ''Access-Control-Allow-Methods''
                            ''GET, POST, PUT, DELETE, OPTIONS''
                           (res_header ''Access-Control-Allow-Origin'' orig r)))))\<lparr>code := 204\<rparr>,
                   Ended)
             else (r\<lparr>code := 204\<rparr>, Ended)))\<rparr>"

text \<open>The middleware of server.js that sets the headers on every response.\<close>

definition manualCors :: layer where
  "manualCors =
     \<lparr>applies = (\<lambda>req. True),
      handler = (\<lambda>req r.
        (case origin req of
           None \<Rightarrow> (r, Next)
         | Some orig \<Rightarrow>
             if orig \<in> set allowedOrigins
             then (res_header ''Vary'' ''Origin''
                     (res_header ''Access-Control-Allow-Credentials'' ''true''
                       (res_header ''Access-Control-Allow-Origin'' orig r)),
                   Next)
             else (r, Next)))\<rparr>"

text \<open>
  How Express matches a request path against a route with its default options: letter
  case is ignored and one trailing slash is allowed.
\<close>

definition toLowerCase :: "string \<Rightarrow> string" where
  "toLowerCase p =
     map (\<lambda>c. if (65::nat) \<le> of_char c \<and> of_char c \<le> (90::nat)
               then char_of (of_char c + (32::nat)) else c) p"

definition routeMatches :: "string \<Rightarrow> string \<Rightarrow> bool" where
  "routeMatches route p =
     (toLowerCase p = toLowerCase route \<or> toLowerCase p = toLowerCase route @ ''/'')"

text \<open>
  \<^verbatim>\<open>router.options('/signup', ...)\<close> of routes/authRoutes.js, mounted by server.js at
  \<^verbatim>\<open>/api/auth\<close>. It writes the request's origin back whatever it is; a header that was
  not sent is written as the string of \<^verbatim>\<open>undefined\<close>.
\<close>

definition signupOptions :: layer where
  "signupOptions =
     \<lparr>applies = (\<lambda>req. req_method req = OPTIONS \<and> routeMatches ''/api/auth/signup'' (path req)),
      handler = (\<lambda>req r.
        ((res_header ''Access-Control-Allow-Headers'' ''Content-Type, Authorization''
           (res_header ''Access-Control-Allow-Methods'' ''POST, OPTIONS''
             (res_header ''Access-Control-Allow-Origin''
                (case origin req of None \<Rightarrow> ''undefined'' | Some orig \<Rightarrow> orig) r)))\<lparr>code := 200\<rparr>,
         Ended))\<rparr>"

text \<open>
  Express runs the layers in the order they were registered: the first that applies
  handles the request, and the following ones see it only if that one called
  \<^verbatim>\<open>next()\<close>. A request no layer ends is answered 404.
\<close>

fun dispatch :: "layer list \<Rightarrow> request \<Rightarrow> reply \<Rightarrow> reply" where
  "dispatch [] req r = r\<lparr>code := 404\<rparr>"
| "dispatch (l # ls) req r =
     (if applies l req
      then (case handler l req r of
              (r', Ended) \<Rightarrow> r'
            | (r', Next) \<Rightarrow> dispatch ls req r')
      else dispatch ls req r)"

text \<open>
  The stack of server.js as far as a preflight request can see it: the global
  \<^verbatim>\<open>OPTIONS\<close> handler, the header middleware, then the \<^verbatim>\<open>cors\<close> package, logging,
  timeouts and body parsers (\<open>others\<close>: external, whatever they do), then the router.
\<close>

definition app :: "layer list \<Rightarrow> request \<Rightarrow> reply" where
  "app others req =
     dispatch ([appOptions, manualCors] @ others @ [signupOptions]) req
       \<lparr>headers = [], code = 200\<rparr>"

section \<open>config/db.js and server.js: the connection bootstrap\<close>

text \<open>
  What the bootstrap does, in order: a call of \<^verbatim>\<open>mongoose.connect\<close>, a timer of so
  many milliseconds, the log line of a successful connection, \<^verbatim>\<open>process.exit\<close>.
\<close>

datatype event = Connect | Timer nat | Connected | Exit nat

text \<open>How an awaited call comes back; after \<^verbatim>\<open>process.exit\<close> it does not.\<close>

datatype outcome = Resolved | Rejected | Exited

text \<open>
  \<^verbatim>\<open>connectDB\<close> of config/db.js. \<open>uri\<close> is \<^verbatim>\<open>process.env.MONGODB_URI\<close>, \<open>ok\<close> tells
  whether this call of \<^verbatim>\<open>mongoose.connect\<close> succeeds. Both the missing URI and the
  failed connection are caught inside the function, which exits the process.
\<close>

definition connectDB :: "string option \<Rightarrow> bool \<Rightarrow> event list \<times> outcome" where
  "connectDB uri ok =
     (if \<not> truthy uri then ([Exit 1], Exited)
      else if ok then ([Connect], Resolved)
      else ([Connect, Exit 1], Exited))"

definition MAX_RETRIES :: nat where
  "MAX_RETRIES = 5"

text \<open>
  \<^verbatim>\<open>connectWithRetry\<close> of server.js, the variant with a retry counter. \<open>oks\<close> are the
  outcomes of the calls of \<^verbatim>\<open>mongoose.connect\<close> to come, one per call of
  \<^verbatim>\<open>connectDB\<close>; the trace stops where they run out.
\<close>

fun connectWithRetry_bounded :: "string option \<Rightarrow> bool list \<Rightarrow> nat \<Rightarrow> event list" where
  "connectWithRetry_bounded uri [] retryCount = []"
| "connectWithRetry_bounded uri (ok # oks) retryCount =
     (case connectDB uri ok of
        (evs, Resolved) \<Rightarrow> evs @ [Connected]
      | (evs, Rejected) \<Rightarrow>
          (if retryCount < MAX_RETRIES
           then evs @ [Timer 5000] @ connectWithRetry_bounded uri oks (Suc retryCount)
           else evs @ [Exit 1])
      | (evs, Exited) \<Rightarrow> evs)"

text \<open>\<^verbatim>\<open>connectWithRetry\<close> of server.js, the variant without a counter.\<close>

fun connectWithRetry_unbounded :: "string option \<Rightarrow> bool list \<Rightarrow> event list" where
  "connectWithRetry_unbounded uri [] = []"
| "connectWithRetry_unbounded uri (ok # oks) =
     (case connectDB uri ok of
        (evs, Resolved) \<Rightarrow> evs @ [Connected]
      | (evs, Rejected) \<Rightarrow> evs @ [Timer 5000] @ connectWithRetry_unbounded uri oks
      | (evs, Exited) \<Rightarrow> evs)"

section \<open>Sample data\<close>

definition sample_env :: env where
  "sample_env =
     \<lparr>JWT_SECRET = Some ''k'',
      bcrypt_hash = (\<lambda>p. ''$2a$'' @ p),
      bcrypt_compare = (\<lambda>p h. h = ''$2a$'' @ p)\<rparr>"

definition alice :: user where
  "alice =
     \<lparr>user_id = 1, name = ''A'', email = ''a@x.com'', password = ''$2a$pw1'',
      phone = None, profilePicture = None\<rparr>"

definition bob :: user where
  "bob =
     \<lparr>user_id = 2, name = ''B'', email = ''b@x.com'', password = ''$2a$pw2'',
      phone = Some ''555'', profilePicture = None\<rparr>"

definition sample_store :: store where
  "sample_store = \<lparr>users = [alice, bob], nextId = 3, faults = []\<rparr>"

section \<open>Facts about the store\<close>

lemma users_settled: "users (settled s) = users s"
  by (simp add: settled_def)

lemmas sample_defs = sample_store_def sample_env_def alice_def bob_def
lemmas store_defs = findOne_def findById_def rejects_def settled_def

lemma findOne_users: "findOne e s = (r, s1) \<Longrightarrow> users s1 = users s"
  by (auto simp: findOne_def users_settled split: if_splits)

lemma findById_users: "findById i s = (r, s1) \<Longrightarrow> users s1 = users s"
  by (auto simp: findById_def users_settled split: if_splits)

lemma findById_Some:
  "findById i s = (Inr (Some u), s1) \<Longrightarrow>
     find (\<lambda>v. user_id v = i) (users s) = Some u \<and> user_id u = i \<and> users s1 = users s"
  by (auto simp: findById_def users_settled find_Some_iff split: if_splits)

lemma find_replaced:
  "find (\<lambda>v. user_id v = i) xs = Some u \<Longrightarrow> user_id u' = i \<Longrightarrow>
     find (\<lambda>v. user_id v = i) (map (\<lambda>v. if user_id v = i then u' else v) xs) = Some u'"
  by (induction xs) (auto split: if_splits)

lemma replace_twice:
  "user_id u' = i \<Longrightarrow>
     map (\<lambda>v. if user_id v = i then u' else v) (map (\<lambda>v. if user_id v = i then u' else v) xs)
       = map (\<lambda>v. if user_id v = i then u' else v) xs"
  by (induction xs) auto

lemma user_id_preSave: "user_id (preSave env m u) = user_id u"
  by (simp add: preSave_def)

lemma map_of_select_without:
  "map_of (select_without f doc) k = (if k = f then None else map_of doc k)"
  by (induction doc) (auto simp: select_without_def)

text \<open>The documents an update that answers 200 leaves in the store.\<close>

lemma assignAndSave_ok:
  assumes "assignAndSave env n ph pic pw usr s = (r, s')" and "status r = 200"
  shows "users s' =
           map (\<lambda>v. if user_id v = user_id usr
                     then preSave env (truthy pw)
                            (usr\<lparr>name := assigned n (name usr),
                                 phone := (if truthy ph then ph else phone usr),
                                 profilePicture := (if truthy pic then pic else profilePicture usr),
                                 password := assigned pw (password usr)\<rparr>)
                     else v) (users s)"
  using assms
  by (auto simp: assignAndSave_def save_existing_def res_json_def users_settled split: if_splits)

lemma updateProfile_found:
  assumes "findById rid s = (Inr (Some u), s1)"
  shows "updateProfile env rid n e ph pic pw s =
           (if truthy e \<and> e \<noteq> Some (email u)
            then (case findOne (assigned e (email u)) s1 of
                    (Inl err, s2) \<Rightarrow>
                      (res_json 500 (JObj [(''error'', JStr ''Unable to update profile'')]), s2)
                  | (Inr (Some existingUser), s2) \<Rightarrow>
                      (res_json 400 (JObj [(''error'', JStr ''Email already exists'')]), s2)
                  | (Inr None, s2) \<Rightarrow>
                      assignAndSave env n ph pic pw (u\<lparr>email := assigned e (email u)\<rparr>) s2)
            else assignAndSave env n ph pic pw u s1)"
  using assms
  by (cases e)
    (auto simp: updateProfile_def truthy_def assigned_def
      split: prod.splits sum.splits option.splits)

lemma updateProfile_ok:
  assumes f: "findById rid s = (Inr (Some u), s1)"
    and up: "updateProfile env rid n e ph pic pw s = (r, s')"
    and ok: "status r = 200"
  shows "users s' =
           map (\<lambda>v. if user_id v = rid
                     then preSave env (truthy pw)
                            (u\<lparr>email := assigned e (email u),
                               name := assigned n (name u),
                               phone := (if truthy ph then ph else phone u),
                               profilePicture := (if truthy pic then pic else profilePicture u),
                               password := assigned pw (password u)\<rparr>)
                     else v) (users s)"
proof -
  from findById_Some [OF f] have id: "user_id u = rid" and u1: "users s1 = users s"
    by simp_all
  note up' = up [unfolded updateProfile_found [OF f]]
  show ?thesis
  proof (cases "truthy e \<and> e \<noteq> Some (email u)")
    case True
    obtain q s2 where fo: "findOne (assigned e (email u)) s1 = (q, s2)"
      by (cases "findOne (assigned e (email u)) s1")
    have u2: "users s2 = users s"
      using findOne_users [OF fo] u1 by simp
    from up' True fo ok
    have "assignAndSave env n ph pic pw (u\<lparr>email := assigned e (email u)\<rparr>) s2 = (r, s')"
      by (auto simp: res_json_def split: sum.splits option.splits)
    from assignAndSave_ok [OF this ok] id u2 show ?thesis by simp
  next
    case False
    then have same: "assigned e (email u) = email u"
      by (auto simp: truthy_def assigned_def split: option.splits)
    from up' False
    have "assignAndSave env n ph pic pw u s1 = (r, s')"
      by auto
    from assignAndSave_ok [OF this ok] id u1 same show ?thesis by simp
  qed
qed

lemma updateProfile_ok_found:
  assumes f: "findById rid s = (Inr (Some u), s1)"
    and up: "updateProfile env rid n e ph pic pw s = (r, s')"
    and ok: "status r = 200"
  shows "find (\<lambda>v. user_id v = rid) (users s') =
           Some (preSave env (truthy pw)
                            (u\<lparr>email := assigned e (email u),
                               name := assigned n (name u),
                               phone := (if truthy ph then ph else phone u),
                               profilePicture := (if truthy pic then pic else profilePicture u),
                               password := assigned pw (password u)\<rparr>))"
proof -
  from findById_Some [OF f]
  have fd: "find (\<lambda>v. user_id v = rid) (users s) = Some u" and id: "user_id u = rid"
    by simp_all
  show ?thesis
    unfolding updateProfile_ok [OF f up ok]
    by (rule find_replaced [OF fd]) (simp add: user_id_preSave id)
qed

lemma updateProfile_ok_not_rejected:
  assumes "updateProfile env rid n e ph pic pw s = (r, s')" and "status r = 200"
  shows "\<not> rejects s"
  using assms by (auto simp: updateProfile_def findById_def res_json_def)

lemmas update_defs = updateProfile_def assignAndSave_def save_existing_def preSave_def
  truthy_def assigned_def res_json_def

section \<open>Facts about the middleware stack and the bootstrap\<close>

text \<open>The global handler is registered first and ends every \<^verbatim>\<open>OPTIONS\<close> request.\<close>

lemma dispatch_appOptions_first:
  "req_method req = OPTIONS \<Longrightarrow>
     dispatch (appOptions # ls) req r = fst (handler appOptions req r)"
  by (simp add: appOptions_def split: option.splits)

text \<open>
  The router's own handler, were a request to reach it, writes any origin back.
\<close>

lemma signupOptions_echoes_any_origin:
  "map_of (headers (fst (handler signupOptions req \<lparr>headers = [], code = 200\<rparr>)))
     ''Access-Control-Allow-Origin''
   = Some (case origin req of None \<Rightarrow> ''undefined'' | Some orig \<Rightarrow> orig)"
  by (simp add: signupOptions_def res_header_def)

text \<open>
  \<^verbatim>\<open>connectDB\<close> handles its own failures, so the promise it returns never rejects and
  neither variant of \<^verbatim>\<open>connectWithRetry\<close> reaches its timer.
\<close>

lemma connectDB_never_rejects: "snd (connectDB uri ok) \<noteq> Rejected"
  by (simp add: connectDB_def)

lemma connectWithRetry_bounded_first_failure:
  "connectWithRetry_bounded uri (False # oks) retryCount =
     (if truthy uri then [Connect, Exit 1] else [Exit 1])"
  by (simp add: connectDB_def)

lemma connectWithRetry_unbounded_first_failure:
  "connectWithRetry_unbounded uri (False # oks) =
     (if truthy uri then [Connect, Exit 1] else [Exit 1])"
  by (simp add: connectDB_def)

lemma connectWithRetry_bounded_no_timer: "Timer d \<notin> set (connectWithRetry_bounded uri oks n)"
  by (cases oks) (auto simp: connectDB_def)

lemma connectWithRetry_unbounded_no_timer: "Timer d \<notin> set (connectWithRetry_unbounded uri oks)"
  by (cases oks) (auto simp: connectDB_def)

section \<open>Facts about a signing key that is not configured\<close>

text \<open>
  With the key unset or empty \<^verbatim>\<open>jwt.sign\<close> throws, after the save in \<^verbatim>\<open>signup\<close>: the
  user is stored and the answer is 500. A login with the right secret is answered 500
  too.
\<close>

lemma jwt_sign_unconfigured: "\<not> truthy secret \<Longrightarrow> jwt_sign ident secret expiresIn now = None"
  by (auto simp: jwt_sign_def truthy_def split: option.splits)

lemma signup_unconfigured_key:
  assumes "findOne email' s = (Inr None, s1)"
    and "newUser name' email' password' phone' profilePicture' s1 = (user, s2)"
    and "save_new env user s2 = (Inr saved, s3)"
    and "\<not> truthy (JWT_SECRET env)"
  shows "signup env now name' email' password' phone' profilePicture' s =
           (\<lparr>status = 500, body = JObj [(''error'', JStr ''Server error'')]\<rparr>, s3)"
  using assms(1,2,3) jwt_sign_unconfigured [OF assms(4)]
  by (simp add: signup_def res_json_def)

lemma login_unconfigured_key:
  assumes "findOne email' s = (Inr (Some u), s1)"
    and "matchPassword env u password'"
    and "\<not> truthy (JWT_SECRET env)"
  shows "login env now email' password' s =
           (\<lparr>status = 500, body = JObj [(''error'', JStr ''Server error'')]\<rparr>, s1)"
  using assms(1,2) jwt_sign_unconfigured [OF assms(3)]
  by (simp add: login_def res_json_def)

text \<open>The router's handler is registered for the path in any letter case.\<close>

lemma signupOptions_applies_any_case:
  "applies signupOptions \<lparr>req_method = OPTIONS, path = ''/API/auth/Signup/'', origin = None\<rparr>"
  by code_simp

section \<open>The claims\<close>

subsection \<open>C1: the two login failures are indistinguishable\<close>

text \<open>
  Claim C1. A login whose lookup finds no user for the email, and a login whose lookup
  finds a user whose stored hash does not match the supplied secret, get the same
  response: status 400 with the body \<^verbatim>\<open>{ error: 'Invalid credentials' }\<close>. The two
  calls may differ in everything else (store, email, secret, time).
\<close>

theorem login_failures_indistinguishable:
  assumes "findOne em s = (Inr None, s1)"
    and "findOne em' t = (Inr (Some u), t1)"
    and "\<not> matchPassword env u pw'"
  shows "fst (login env now em pw s) = fst (login env now' em' pw' t) \<and>
         fst (login env now em pw s) =
           \<lparr>status = 400, body = JObj [(''error'', JStr ''Invalid credentials'')]\<rparr> \<and>
         fst (login env now' em' pw' t) =
           \<lparr>status = 400, body = JObj [(''error'', JStr ''Invalid credentials'')]\<rparr>"
  using assms by (simp add: login_def res_json_def)

theorem login_failures_indistinguishable_witness:
  "findOne ''nobody@x.com'' sample_store = (Inr None, sample_store) \<and>
   findOne ''a@x.com'' sample_store = (Inr (Some alice), sample_store) \<and>
   \<not> matchPassword sample_env alice ''wrong'' \<and>
   fst (login sample_env 0 ''nobody@x.com'' ''pw1'' sample_store) =
     fst (login sample_env 9 ''a@x.com'' ''wrong'' sample_store) \<and>
   fst (login sample_env 0 ''nobody@x.com'' ''pw1'' sample_store) =
     \<lparr>status = 400, body = JObj [(''error'', JStr ''Invalid credentials'')]\<rparr>"
proof -
  have a: "findOne ''nobody@x.com'' sample_store = (Inr None, sample_store)"
    by (simp add: store_defs sample_defs)
  have b: "findOne ''a@x.com'' sample_store = (Inr (Some alice), sample_store)"
    by (simp add: store_defs sample_defs)
  have c: "\<not> matchPassword sample_env alice ''wrong''"
    by (simp add: matchPassword_def sample_env_def alice_def)
  from login_failures_indistinguishable [OF a b c, of 0 "''pw1''" 9] a b c
  show ?thesis by simp
qed

subsection \<open>C2: signup with an email that is taken\<close>

text \<open>
  Claim C2. When the lookup of a signup finds a user with the supplied email, the
  response is 400 with \<^verbatim>\<open>{ error: 'Email already exists' }\<close> and the stored documents
  are what they were: none added, none changed.
\<close>

theorem signup_duplicate_email:
  assumes "findOne email' s = (Inr (Some existing), s1)"
  shows "fst (signup env now name' email' password' phone' profilePicture' s) =
           \<lparr>status = 400, body = JObj [(''error'', JStr ''Email already exists'')]\<rparr> \<and>
         users (snd (signup env now name' email' password' phone' profilePicture' s)) = users s"
  using assms findOne_users [OF assms] by (simp add: signup_def res_json_def)

theorem signup_duplicate_email_witness:
  "findOne ''a@x.com'' sample_store = (Inr (Some alice), sample_store) \<and>
   fst (signup sample_env 0 ''A2'' ''a@x.com'' ''pw9'' None None sample_store) =
     \<lparr>status = 400, body = JObj [(''error'', JStr ''Email already exists'')]\<rparr> \<and>
   users (snd (signup sample_env 0 ''A2'' ''a@x.com'' ''pw9'' None None sample_store)) =
     [alice, bob]"
proof -
  have a: "findOne ''a@x.com'' sample_store = (Inr (Some alice), sample_store)"
    by (simp add: store_defs sample_defs)
  have u: "users sample_store = [alice, bob]"
    by (simp add: sample_store_def)
  from signup_duplicate_email [OF a, of sample_env 0 "''A2''" "''pw9''" None None] a u
  show ?thesis by simp
qed

subsection \<open>C3: a successful signup\<close>



subsection \<open>C4: fields of an update are applied when provided\<close>

text \<open>
  Claim C4, as amended. After an update that answers 200, each of name, email, phone and
  profile picture holds the value from the body where that is a non-empty string and its
  earlier value where the field is absent or empty; the password field holds the hash of
  a non-empty secret from the body and is unchanged otherwise.
\<close>

theorem updateProfile_applies_provided_fields:
  assumes "findById rid s = (Inr (Some u), s1)"
    and "updateProfile env rid name' email' phone' profilePicture' password' s = (r, s')"
    and "status r = 200"
  shows "\<exists>u'. find (\<lambda>v. user_id v = rid) (users s') = Some u' \<and>
           (\<forall>x. name' = Some x \<and> x \<noteq> [] \<longrightarrow> name u' = x) \<and>
           (name' = None \<or> name' = Some [] \<longrightarrow> name u' = name u) \<and>
           (\<forall>x. email' = Some x \<and> x \<noteq> [] \<longrightarrow> email u' = x) \<and>
           (email' = None \<or> email' = Some [] \<longrightarrow> email u' = email u) \<and>
           (\<forall>x. phone' = Some x \<and> x \<noteq> [] \<longrightarrow> phone u' = Some x) \<and>
           (phone' = None \<or> phone' = Some [] \<longrightarrow> phone u' = phone u) \<and>
           (\<forall>x. profilePicture' = Some x \<and> x \<noteq> [] \<longrightarrow> profilePicture u' = Some x) \<and>
           (profilePicture' = None \<or> profilePicture' = Some [] \<longrightarrow>
              profilePicture u' = profilePicture u) \<and>
           (\<forall>x. password' = Some x \<and> x \<noteq> [] \<longrightarrow> password u' = bcrypt_hash env x) \<and>
           (password' = None \<or> password' = Some [] \<longrightarrow> password u' = password u)"
proof -
  let ?u' = "preSave env (truthy password')
               (u\<lparr>email := assigned email' (email u),
                  name := assigned name' (name u),
                  phone := (if truthy phone' then phone' else phone u),
                  profilePicture :=
                    (if truthy profilePicture' then profilePicture' else profilePicture u),
                  password := assigned password' (password u)\<rparr>)"
  have fd: "find (\<lambda>v. user_id v = rid) (users s') = Some ?u'"
    using assms by (rule updateProfile_ok_found)
  have n1: "\<forall>x. name' = Some x \<and> x \<noteq> [] \<longrightarrow> name ?u' = x"
    and n2: "name' = None \<or> name' = Some [] \<longrightarrow> name ?u' = name u"
    by (auto simp: preSave_def assigned_def)
  have e1: "\<forall>x. email' = Some x \<and> x \<noteq> [] \<longrightarrow> email ?u' = x"
    and e2: "email' = None \<or> email' = Some [] \<longrightarrow> email ?u' = email u"
    by (auto simp: preSave_def assigned_def)
  have p1: "\<forall>x. phone' = Some x \<and> x \<noteq> [] \<longrightarrow> phone ?u' = Some x"
    and p2: "phone' = None \<or> phone' = Some [] \<longrightarrow> phone ?u' = phone u"
    by (auto simp: preSave_def truthy_def)
  have i1: "\<forall>x. profilePicture' = Some x \<and> x \<noteq> [] \<longrightarrow> profilePicture ?u' = Some x"
    and i2: "profilePicture' = None \<or> profilePicture' = Some [] \<longrightarrow>
              profilePicture ?u' = profilePicture u"
    by (auto simp: preSave_def truthy_def)
  have w1: "\<forall>x. password' = Some x \<and> x \<noteq> [] \<longrightarrow> password ?u' = bcrypt_hash env x"
    and w2: "password' = None \<or> password' = Some [] \<longrightarrow> password ?u' = password u"
    by (auto simp: preSave_def truthy_def assigned_def)
  show ?thesis
    by (rule exI [of _ ?u']) (intro conjI fd n1 n2 e1 e2 p1 p2 i1 i2 w1 w2)
qed

theorem updateProfile_applies_provided_fields_witness:
  "findById 1 sample_store = (Inr (Some alice), sample_store) \<and>
   updateProfile sample_env 1 (Some ''X'') (Some ''z@x.com'') None (Some '''') (Some ''new'')
       sample_store =
     (\<lparr>status = 200, body = JObj [(''message'', JStr ''Profile updated successfully'')]\<rparr>,
      sample_store\<lparr>users :=
        [\<lparr>user_id = 1, name = ''X'', email = ''z@x.com'', password = ''$2a$new'',
          phone = None, profilePicture = None\<rparr>, bob]\<rparr>) \<and>
   (\<exists>u'. find (\<lambda>v. user_id v = 1)
            (users (sample_store\<lparr>users :=
               [\<lparr>user_id = 1, name = ''X'', email = ''z@x.com'', password = ''$2a$new'',
                 phone = None, profilePicture = None\<rparr>, bob]\<rparr>)) = Some u' \<and>
         name u' = ''X'' \<and> email u' = ''z@x.com'' \<and> phone u' = phone alice \<and>
         profilePicture u' = profilePicture alice \<and>
         password u' = bcrypt_hash sample_env ''new'')"
proof -
  let ?s' = "sample_store\<lparr>users :=
        [\<lparr>user_id = 1, name = ''X'', email = ''z@x.com'', password = ''$2a$new'',
          phone = None, profilePicture = None\<rparr>, bob]\<rparr>"
  let ?ok = "\<lparr>status = 200, body = JObj [(''message'', JStr ''Profile updated successfully'')]\<rparr>"
  have a: "findById 1 sample_store = (Inr (Some alice), sample_store)"
    by (simp add: store_defs sample_defs)
  have b: "updateProfile sample_env 1 (Some ''X'') (Some ''z@x.com'') None (Some '''')
             (Some ''new'') sample_store = (?ok, ?s')"
    by (simp add: update_defs store_defs sample_defs)
  have k: "status ?ok = 200"
    by simp
  from updateProfile_applies_provided_fields [OF a b k] a b
  show ?thesis by auto
qed

text \<open>
  Claim C4 as it was stated has every field that is present in the body applied. The
  handler tests each field with \<^verbatim>\<open>if (value)\<close>, so a field that is present but empty
  is skipped like an absent one: a body with the empty name answers 200 and the stored
  name stays. An email that another user holds is present too, and the call answers 400
  with the stored email unchanged.
\<close>

theorem updateProfile_present_field_not_applied:
  "updateProfile sample_env 1 (Some '''') None None None None sample_store =
     (\<lparr>status = 200, body = JObj [(''message'', JStr ''Profile updated successfully'')]\<rparr>,
      sample_store) \<and>
   find (\<lambda>v. user_id v = 1) (users sample_store) = Some alice \<and>
   name alice = ''A'' \<and>
   updateProfile sample_env 1 None (Some ''b@x.com'') None None None sample_store =
     (\<lparr>status = 400, body = JObj [(''error'', JStr ''Email already exists'')]\<rparr>,
      sample_store) \<and>
   email alice = ''a@x.com''"
  by (simp add: update_defs store_defs sample_defs)

subsection \<open>C5: the same name-only update twice\<close>

text \<open>
  Claim C5. For a stored user, two updates in a row whose body holds only a name (any
  non-empty string, \<^verbatim>\<open>"X"\<close> in the claim), both answered 200: after each of them the
  user's name is that string and the email, phone, profile picture and password hash are
  what they were before the first; the second leaves the stored documents as the first
  left them.
\<close>

theorem updateProfile_name_only_twice:
  assumes "findById rid s = (Inr (Some u), s0)"
    and "x \<noteq> []"
    and "updateProfile env rid (Some x) None None None None s = (r1, s1)"
    and "status r1 = 200"
    and "updateProfile env rid (Some x) None None None None s1 = (r2, s2)"
    and "status r2 = 200"
  shows "(\<exists>u1. find (\<lambda>v. user_id v = rid) (users s1) = Some u1 \<and> name u1 = x \<and>
            email u1 = email u \<and> phone u1 = phone u \<and>
            profilePicture u1 = profilePicture u \<and> password u1 = password u) \<and>
         (\<exists>u2. find (\<lambda>v. user_id v = rid) (users s2) = Some u2 \<and> name u2 = x \<and>
            email u2 = email u \<and> phone u2 = phone u \<and>
            profilePicture u2 = profilePicture u \<and> password u2 = password u) \<and>
         users s2 = users s1"
proof -
  let ?u1 = "u\<lparr>name := x\<rparr>"
  have doc: "\<And>w. preSave env (truthy None)
               (w\<lparr>email := assigned None (email w),
                  name := assigned (Some x) (name w),
                  phone := (if truthy None then None else phone w),
                  profilePicture := (if truthy None then None else profilePicture w),
                  password := assigned None (password w)\<rparr>) = w\<lparr>name := x\<rparr>"
    using assms(2) by (simp add: preSave_def truthy_def assigned_def)
  have id: "user_id u = rid"
    using findById_Some [OF assms(1)] by simp
  have us1: "users s1 = map (\<lambda>v. if user_id v = rid then ?u1 else v) (users s)"
    using updateProfile_ok [OF assms(1,3,4)] by (simp only: doc)
  have f1: "find (\<lambda>v. user_id v = rid) (users s1) = Some ?u1"
    using updateProfile_ok_found [OF assms(1,3,4)] by (simp only: doc)
  have "\<not> rejects s1"
    using assms(5,6) by (rule updateProfile_ok_not_rejected)
  then have fb: "findById rid s1 = (Inr (Some ?u1), settled s1)"
    using f1 by (simp add: findById_def)
  have us2: "users s2 = map (\<lambda>v. if user_id v = rid then ?u1 else v) (users s1)"
    using updateProfile_ok [OF fb assms(5,6)] by (simp only: doc) simp
  have f2: "find (\<lambda>v. user_id v = rid) (users s2) = Some ?u1"
    using updateProfile_ok_found [OF fb assms(5,6)] by (simp only: doc) simp
  have same: "users s2 = users s1"
    unfolding us2 unfolding us1 by (rule replace_twice) (simp add: id)
  have a: "\<exists>u1. find (\<lambda>v. user_id v = rid) (users s1) = Some u1 \<and> name u1 = x \<and>
            email u1 = email u \<and> phone u1 = phone u \<and>
            profilePicture u1 = profilePicture u \<and> password u1 = password u"
    by (rule exI [of _ ?u1]) (simp add: f1)
  have b: "\<exists>u2. find (\<lambda>v. user_id v = rid) (users s2) = Some u2 \<and> name u2 = x \<and>
            email u2 = email u \<and> phone u2 = phone u \<and>
            profilePicture u2 = profilePicture u \<and> password u2 = password u"
    by (rule exI [of _ ?u1]) (simp add: f2)
  from a b same show ?thesis by (intro conjI)
qed

theorem updateProfile_name_only_twice_witness:
  "findById 1 sample_store = (Inr (Some alice), sample_store) \<and>
   updateProfile sample_env 1 (Some ''X'') None None None None sample_store =
     (\<lparr>status = 200, body = JObj [(''message'', JStr ''Profile updated successfully'')]\<rparr>,
      sample_store\<lparr>users := [alice\<lparr>name := ''X''\<rparr>, bob]\<rparr>) \<and>
   updateProfile sample_env 1 (Some ''X'') None None None None
       (sample_store\<lparr>users := [alice\<lparr>name := ''X''\<rparr>, bob]\<rparr>) =
     (\<lparr>status = 200, body = JObj [(''message'', JStr ''Profile updated successfully'')]\<rparr>,
      sample_store\<lparr>users := [alice\<lparr>name := ''X''\<rparr>, bob]\<rparr>) \<and>
   (\<exists>u2. find (\<lambda>v. user_id v = 1)
            (users (sample_store\<lparr>users := [alice\<lparr>name := ''X''\<rparr>, bob]\<rparr>)) = Some u2 \<and>
         name u2 = ''X'' \<and> email u2 = email alice \<and> phone u2 = phone alice \<and>
         profilePicture u2 = profilePicture alice \<and> password u2 = password alice)"
proof -
  let ?s1 = "sample_store\<lparr>users := [alice\<lparr>name := ''X''\<rparr>, bob]\<rparr>"
  let ?ok = "\<lparr>status = 200, body = JObj [(''message'', JStr ''Profile updated successfully'')]\<rparr>"
  have a: "findById 1 sample_store = (Inr (Some alice), sample_store)"
    by (simp add: store_defs sample_defs)
  have x: "''X'' \<noteq> []"
    by simp
  have c1: "updateProfile sample_env 1 (Some ''X'') None None None None sample_store = (?ok, ?s1)"
    by (simp add: updateProfile_def assignAndSave_def save_existing_def preSave_def truthy_def
        assigned_def res_json_def store_defs sample_defs)
  have c2: "updateProfile sample_env 1 (Some ''X'') None None None None ?s1 = (?ok, ?s1)"
    by (simp add: updateProfile_def assignAndSave_def save_existing_def preSave_def truthy_def
        assigned_def res_json_def store_defs sample_defs)
  have k: "status ?ok = 200"
    by simp
  from updateProfile_name_only_twice [OF a x c1 k c2 k] a c1 c2
  show ?thesis by simp
qed

subsection \<open>C6: changing the email re-runs the uniqueness lookup\<close>

text \<open>
  Claim C6, as amended. For an email in the body that is non-empty and differs from the
  user's: the lookup runs on the store; if it finds a user, the answer is 400 with
  \<^verbatim>\<open>{ error: 'Email already exists' }\<close> and nothing is saved; if it finds none, the
  document with the new email goes on to the save, and when the update answers 200 the
  stored user has the new email.
\<close>

theorem updateProfile_email_uniqueness:
  assumes "findById rid s = (Inr (Some u), s1)"
    and "e \<noteq> []"
    and "e \<noteq> email u"
  shows "(\<forall>other s2. findOne e s1 = (Inr (Some other), s2) \<longrightarrow>
            updateProfile env rid name' (Some e) phone' profilePicture' password' s =
              (\<lparr>status = 400, body = JObj [(''error'', JStr ''Email already exists'')]\<rparr>, s2) \<and>
            users s2 = users s) \<and>
         (\<forall>s2 r s'. findOne e s1 = (Inr None, s2) \<and>
            updateProfile env rid name' (Some e) phone' profilePicture' password' s = (r, s') \<and>
            status r = 200 \<longrightarrow>
            (\<exists>u'. find (\<lambda>v. user_id v = rid) (users s') = Some u' \<and> email u' = e)) \<and>
         (\<forall>s2. findOne e s1 = (Inr None, s2) \<longrightarrow>
            updateProfile env rid name' (Some e) phone' profilePicture' password' s =
              assignAndSave env name' phone' profilePicture' password' (u\<lparr>email := e\<rparr>) s2)"
proof -
  have t: "truthy (Some e) \<and> Some e \<noteq> Some (email u)" and as: "assigned (Some e) (email u) = e"
    using assms(2,3) by (simp_all add: truthy_def assigned_def)
  have u1: "users s1 = users s"
    using assms(1) by (rule findById_users)
  have dup: "\<forall>other s2. findOne e s1 = (Inr (Some other), s2) \<longrightarrow>
            updateProfile env rid name' (Some e) phone' profilePicture' password' s =
              (\<lparr>status = 400, body = JObj [(''error'', JStr ''Email already exists'')]\<rparr>, s2) \<and>
            users s2 = users s"
  proof (intro allI impI)
    fix other s2
    assume fo: "findOne e s1 = (Inr (Some other), s2)"
    have "users s2 = users s"
      using findOne_users [OF fo] u1 by simp
    moreover have "updateProfile env rid name' (Some e) phone' profilePicture' password' s =
              (\<lparr>status = 400, body = JObj [(''error'', JStr ''Email already exists'')]\<rparr>, s2)"
      using t as fo by (simp add: updateProfile_found [OF assms(1)] res_json_def)
    ultimately show "updateProfile env rid name' (Some e) phone' profilePicture' password' s =
              (\<lparr>status = 400, body = JObj [(''error'', JStr ''Email already exists'')]\<rparr>, s2) \<and>
            users s2 = users s"
      by simp
  qed
  have free: "\<forall>s2 r s'. findOne e s1 = (Inr None, s2) \<and>
            updateProfile env rid name' (Some e) phone' profilePicture' password' s = (r, s') \<and>
            status r = 200 \<longrightarrow>
            (\<exists>u'. find (\<lambda>v. user_id v = rid) (users s') = Some u' \<and> email u' = e)"
  proof (intro allI impI, elim conjE)
    fix s2 r s'
    assume up: "updateProfile env rid name' (Some e) phone' profilePicture' password' s = (r, s')"
      and ok: "status r = 200"
    from updateProfile_ok_found [OF assms(1) up ok]
    show "\<exists>u'. find (\<lambda>v. user_id v = rid) (users s') = Some u' \<and> email u' = e"
      by (simp add: as preSave_def)
  qed
  have path: "\<forall>s2. findOne e s1 = (Inr None, s2) \<longrightarrow>
            updateProfile env rid name' (Some e) phone' profilePicture' password' s =
              assignAndSave env name' phone' profilePicture' password' (u\<lparr>email := e\<rparr>) s2"
    using t as by (simp add: updateProfile_found [OF assms(1)])
  from dup free path show ?thesis by (intro conjI)
qed

theorem updateProfile_email_uniqueness_witness:
  "findById 1 sample_store = (Inr (Some alice), sample_store) \<and>
   ''b@x.com'' \<noteq> [] \<and> ''b@x.com'' \<noteq> email alice \<and>
   findOne ''b@x.com'' sample_store = (Inr (Some bob), sample_store) \<and>
   updateProfile sample_env 1 None (Some ''b@x.com'') None None None sample_store =
     (\<lparr>status = 400, body = JObj [(''error'', JStr ''Email already exists'')]\<rparr>, sample_store) \<and>
   ''z@x.com'' \<noteq> [] \<and> ''z@x.com'' \<noteq> email alice \<and>
   findOne ''z@x.com'' sample_store = (Inr None, sample_store) \<and>
   updateProfile sample_env 1 None (Some ''z@x.com'') None None None sample_store =
     (\<lparr>status = 200, body = JObj [(''message'', JStr ''Profile updated successfully'')]\<rparr>,
      sample_store\<lparr>users := [alice\<lparr>email := ''z@x.com''\<rparr>, bob]\<rparr>) \<and>
   (\<exists>u'. find (\<lambda>v. user_id v = 1)
            (users (sample_store\<lparr>users := [alice\<lparr>email := ''z@x.com''\<rparr>, bob]\<rparr>)) = Some u' \<and>
         email u' = ''z@x.com'')"
proof -
  let ?ok = "\<lparr>status = 200, body = JObj [(''message'', JStr ''Profile updated successfully'')]\<rparr>"
  let ?s' = "sample_store\<lparr>users := [alice\<lparr>email := ''z@x.com''\<rparr>, bob]\<rparr>"
  have a: "findById 1 sample_store = (Inr (Some alice), sample_store)"
    by (simp add: store_defs sample_defs)
  have b: "''b@x.com'' \<noteq> []" and b': "''z@x.com'' \<noteq> []"
    by simp_all
  have c: "''b@x.com'' \<noteq> email alice" and c': "''z@x.com'' \<noteq> email alice"
    by (simp_all add: alice_def)
  have d: "findOne ''b@x.com'' sample_store = (Inr (Some bob), sample_store)"
    and d': "findOne ''z@x.com'' sample_store = (Inr None, sample_store)"
    by (simp_all add: store_defs sample_defs)
  have e': "updateProfile sample_env 1 None (Some ''z@x.com'') None None None sample_store =
              (?ok, ?s')"
    by (simp add: update_defs store_defs sample_defs)
  have k: "status ?ok = 200"
    by simp
  note taken = updateProfile_email_uniqueness [OF a b c, of sample_env None None None None]
  note free = updateProfile_email_uniqueness [OF a b' c', of sample_env None None None None]
  from taken d have t: "updateProfile sample_env 1 None (Some ''b@x.com'') None None None
      sample_store =
     (\<lparr>status = 400, body = JObj [(''error'', JStr ''Email already exists'')]\<rparr>, sample_store)"
    by simp
  from free d' e' k have f: "\<exists>u'. find (\<lambda>v. user_id v = 1) (users ?s') = Some u' \<and>
         email u' = ''z@x.com''"
    by blast
  from a b b' c c' d d' e' t f show ?thesis by (intro conjI)
qed


text \<open>
  Claim C6 as it was stated speaks of every email that is present and differs from the
  current one. The guard is \<^verbatim>\<open>email && email !== user.email\<close>: the empty email is
  present and differs, yet no lookup runs and it is not applied. The update answers 200
  with the email unchanged, and of three scheduled store outcomes it consumes two, the
  fetch and the save.
\<close>

theorem updateProfile_empty_email_skips_lookup:
  "updateProfile sample_env 1 None (Some '''') None None None sample_store =
     (\<lparr>status = 200, body = JObj [(''message'', JStr ''Profile updated successfully'')]\<rparr>,
      sample_store) \<and>
   find (\<lambda>v. user_id v = 1) (users sample_store) = Some alice \<and>
   email alice = ''a@x.com'' \<and>
   find (\<lambda>v. email v = '''') (users sample_store) = None \<and>
   updateProfile sample_env 1 None (Some '''') None None None
       (sample_store\<lparr>faults := [False, False, True]\<rparr>) =
     (\<lparr>status = 200, body = JObj [(''message'', JStr ''Profile updated successfully'')]\<rparr>,
      sample_store\<lparr>faults := [True]\<rparr>)"
  by (simp add: update_defs store_defs sample_defs)

subsection \<open>C7: the profile view\<close>

text \<open>
  Claim C7. When the lookup of \<^verbatim>\<open>getProfile\<close> finds the user, the response is 200
  and its body is the stored document without the password field: the field is not in
  the body, and every other field of the document is, with its stored value.
\<close>

theorem getProfile_user_view:
  assumes "findById rid s = (Inr (Some u), s1)"
  shows "\<exists>view. fst (getProfile rid s) = \<lparr>status = 200, body = JObj view\<rparr> \<and>
           view = select_without ''password'' (toObject u) \<and>
           ''password'' \<notin> fst ` set view \<and>
           (\<forall>k. k \<noteq> ''password'' \<longrightarrow> map_of view k = map_of (toObject u) k) \<and>
           map_of view ''_id'' = Some (JId (user_id u)) \<and>
           map_of view ''name'' = Some (JStr (name u)) \<and>
           map_of view ''email'' = Some (JStr (email u)) \<and>
           map_of view ''phone'' = map_option JStr (phone u) \<and>
           map_of view ''profilePicture'' = map_option JStr (profilePicture u)"
proof -
  let ?view = "select_without ''password'' (toObject u)"
  have r: "fst (getProfile rid s) = \<lparr>status = 200, body = JObj ?view\<rparr>"
    using assms by (simp add: getProfile_def res_json_def)
  have np: "''password'' \<notin> fst ` set ?view"
    by (auto simp: select_without_def)
  have other: "\<forall>k. k \<noteq> ''password'' \<longrightarrow> map_of ?view k = map_of (toObject u) k"
    by (simp add: map_of_select_without)
  have f1: "map_of ?view ''_id'' = Some (JId (user_id u))"
    by (simp add: map_of_select_without toObject_def)
  have f2: "map_of ?view ''name'' = Some (JStr (name u))"
    by (simp add: map_of_select_without toObject_def)
  have f3: "map_of ?view ''email'' = Some (JStr (email u))"
    by (simp add: map_of_select_without toObject_def)
  have f4: "map_of ?view ''phone'' = map_option JStr (phone u)"
    by (simp add: map_of_select_without toObject_def split: option.splits)
  have f5: "map_of ?view ''profilePicture'' = map_option JStr (profilePicture u)"
    by (simp add: map_of_select_without toObject_def split: option.splits)
  from r np other f1 f2 f3 f4 f5 show ?thesis by blast
qed

theorem getProfile_user_view_witness:
  "findById 2 sample_store = (Inr (Some bob), sample_store) \<and>
   fst (getProfile 2 sample_store) =
     \<lparr>status = 200,
      body = JObj [(''_id'', JId 2), (''name'', JStr ''B''), (''email'', JStr ''b@x.com''),
                   (''phone'', JStr ''555'')]\<rparr>"
proof -
  have a: "findById 2 sample_store = (Inr (Some bob), sample_store)"
    by (simp add: store_defs sample_defs)
  have v: "select_without ''password'' (toObject bob) =
             [(''_id'', JId 2), (''name'', JStr ''B''), (''email'', JStr ''b@x.com''),
              (''phone'', JStr ''555'')]"
    by (simp add: select_without_def toObject_def bob_def)
  from getProfile_user_view [OF a] a v show ?thesis by auto
qed

subsection \<open>C8: preflight requests and the allow-list\<close>

text \<open>
  Claim C8. Every \<^verbatim>\<open>OPTIONS\<close> request to the application of server.js, whatever its
  path and whatever the middleware between the header middleware and the router does, is
  answered 204; the answer carries \<^verbatim>\<open>Access-Control-Allow-Origin\<close> (the request's origin)
  and the allowed methods and headers when the origin is one of \<^verbatim>\<open>allowedOrigins\<close>, and
  no header at all when the origin is another one or is not sent. The router's handler for
  \<^verbatim>\<open>/signup\<close> is part of the stack and is never reached.
\<close>

theorem preflight_headers_only_for_allowed_origins:
  assumes "req_method req = OPTIONS"
  shows "(\<forall>orig. origin req = Some orig \<and> orig \<in> set allowedOrigins \<longrightarrow>
            app others req =
              \<lparr>headers = [(''Access-Control-Allow-Origin'', orig),
                          (''Access-Control-Allow-Methods'', ''GET, POST, PUT, DELETE, OPTIONS''),
                          (''Access-Control-Allow-Headers'',
                           ''Content-Type, Authorization, x-auth-token''),
                          (''Access-Control-Allow-Credentials'', ''true''),
                          (''Vary'', ''Origin'')],
               code = 204\<rparr>) \<and>
         (origin req = None \<or> (\<exists>orig. origin req = Some orig \<and> orig \<notin> set allowedOrigins) \<longrightarrow>
            app others req = \<lparr>headers = [], code = 204\<rparr>)"
proof -
  have d: "app others req = fst (handler appOptions req \<lparr>headers = [], code = 200\<rparr>)"
    unfolding app_def using assms by (simp only: append_Cons dispatch_appOptions_first)
  have yes: "\<forall>orig. origin req = Some orig \<and> orig \<in> set allowedOrigins \<longrightarrow>
            app others req =
              \<lparr>headers = [(''Access-Control-Allow-Origin'', orig),
                          (''Access-Control-Allow-Methods'', ''GET, POST, PUT, DELETE, OPTIONS''),
                          (''Access-Control-Allow-Headers'',
                           ''Content-Type, Authorization, x-auth-token''),
                          (''Access-Control-Allow-Credentials'', ''true''),
                          (''Vary'', ''Origin'')],
               code = 204\<rparr>"
    unfolding d by (simp add: appOptions_def res_header_def)
  have no: "origin req = None \<or> (\<exists>orig. origin req = Some orig \<and> orig \<notin> set allowedOrigins) \<longrightarrow>
            app others req = \<lparr>headers = [], code = 204\<rparr>"
    unfolding d by (auto simp: appOptions_def)
  from yes no show ?thesis by (intro conjI)
qed

theorem preflight_headers_only_for_allowed_origins_witness:
  "req_method \<lparr>req_method = OPTIONS, path = ''/api/auth/signup'',
                origin = Some ''https://evil.example''\<rparr> = OPTIONS \<and>
   ''https://evil.example'' \<notin> set allowedOrigins \<and>
   app [] \<lparr>req_method = OPTIONS, path = ''/api/auth/signup'',
           origin = Some ''https://evil.example''\<rparr> = \<lparr>headers = [], code = 204\<rparr> \<and>
   ''http://localhost:3000'' \<in> set allowedOrigins \<and>
   headers (app [] \<lparr>req_method = OPTIONS, path = ''/api/auth/signup'',
           origin = Some ''http://localhost:3000''\<rparr>) =
     [(''Access-Control-Allow-Origin'', ''http://localhost:3000''),
      (''Access-Control-Allow-Methods'', ''GET, POST, PUT, DELETE, OPTIONS''),
      (''Access-Control-Allow-Headers'', ''Content-Type, Authorization, x-auth-token''),
      (''Access-Control-Allow-Credentials'', ''true''),
      (''Vary'', ''Origin'')]"
proof -
  let ?evil = "\<lparr>req_method = OPTIONS, path = ''/api/auth/signup'',
                origin = Some ''https://evil.example''\<rparr>"
  let ?local = "\<lparr>req_method = OPTIONS, path = ''/api/auth/signup'',
                origin = Some ''http://localhost:3000''\<rparr>"
  have m1: "req_method ?evil = OPTIONS" and m2: "req_method ?local = OPTIONS"
    by simp_all
  have o1: "''https://evil.example'' \<notin> set allowedOrigins"
    and o2: "''http://localhost:3000'' \<in> set allowedOrigins"
    by (simp_all add: allowedOrigins_def)
  from preflight_headers_only_for_allowed_origins [OF m1, of "[]"]
    preflight_headers_only_for_allowed_origins [OF m2, of "[]"] o1 o2
  show ?thesis by simp
qed

subsection \<open>C9: the bootstrap when the first connection fails\<close>

text \<open>
  Claim C9 has the bootstrap retry a failed connection after five seconds. With the URI
  configured and the first \<^verbatim>\<open>mongoose.connect\<close> failing (the later ones would succeed),
  both variants connect once and exit with code 1: no timer, no second attempt.
\<close>

theorem bootstrap_exits_on_first_failure:
  "connectWithRetry_bounded (Some ''mongodb://db'') [False, True, True] 0 = [Connect, Exit 1] \<and>
   connectWithRetry_unbounded (Some ''mongodb://db'') [False, True, True] = [Connect, Exit 1]"
  by (simp add: connectDB_def truthy_def)

subsection \<open>C10: the profile of a user that is gone\<close>

text \<open>
  Claim C10. When the lookup of \<^verbatim>\<open>getProfile\<close> finds no user for the identifier, the
  response is 200 with the body \<^verbatim>\<open>null\<close>.
\<close>

theorem getProfile_missing_user:
  assumes "findById rid s = (Inr None, s1)"
  shows "fst (getProfile rid s) = \<lparr>status = 200, body = JNull\<rparr>"
  using assms by (simp add: getProfile_def res_json_def)

theorem getProfile_missing_user_witness:
  "findById 7 sample_store = (Inr None, sample_store) \<and>
   fst (getProfile 7 sample_store) = \<lparr>status = 200, body = JNull\<rparr>"
proof -
  have a: "findById 7 sample_store = (Inr None, sample_store)"
    by (simp add: store_defs sample_defs)
  from getProfile_missing_user [OF a] a show ?thesis by simp
qed

end
